theory Spec2Isabelle
  imports Main "HOL-Library.Sublist"
begin

section \<open>Data of \<^verbatim>\<open>src/components/ChatInterface.tsx\<close>\<close>

text \<open>
  A \<^verbatim>\<open>Date\<close> is its number of milliseconds since the epoch. \<^verbatim>\<open>new Date()\<close> reads the
  wall clock of the machine; the reading is an input of the model.
\<close>

type_synonym time = int

text \<open>
  The object handed to \<^verbatim>\<open>onMessage\<close>. The handler reads \<^verbatim>\<open>message.message?.role\<close> and
  \<^verbatim>\<open>message.message?.content\<close>: the inner object and both of its fields may be missing
  (\<open>None\<close> is JavaScript's \<^verbatim>\<open>undefined\<close>). Whatever else the transport puts into the
  inner object is the extension part of the record.
\<close>

record payload =
  role :: "string option"
  content :: "string option"

record 'a message_event =
  message :: "'a payload_scheme option"

text \<open>
  \<^verbatim>\<open>interface Message\<close> (lines 8 to 12). The union type of \<^verbatim>\<open>role\<close> is erased when the
  program runs, so the field holds whatever string the event carried.
\<close>

record Message =
  role :: string
  content :: string
  timestamp :: time

datatype variant = Default | Destructive

record toast_args =
  title :: string
  description :: string
  variant :: variant

datatype console_level = Log | Error

datatype capability_call = GetUserMedia | StartSession string | EndSession

text \<open>
  Modelled from the spec: the session object returned by \<^verbatim>\<open>useConversation\<close> (package
  \<^verbatim>\<open>@11labs/react\<close>) is not among the sources; the component only reads its
  \<^verbatim>\<open>status\<close> and \<^verbatim>\<open>isSpeaking\<close> fields and calls \<^verbatim>\<open>startSession\<close> and
  \<^verbatim>\<open>endSession\<close>. SessionStatus is the enumeration of section 3 of the specification.
\<close>

datatype SessionStatus = Idle | Connecting | Connected | Ended | Errored

text \<open>
  The state the component lives in: its two \<^verbatim>\<open>useState\<close> cells (lines 16 and 17), the
  session object's two fields, and what has been sent to the outside so far (toasts,
  console lines, calls of the external capabilities), oldest first.
\<close>

record world =
  messages :: "Message list"
  isPermissionGranted :: bool
  status :: SessionStatus
  isSpeaking :: bool
  toasts :: "toast_args list"
  console :: "(console_level \<times> string) list"
  calls :: "capability_call list"

definition initial :: world where
  "initial = \<lparr>messages = [], isPermissionGranted = False, status = Idle, isSpeaking = False,
     toasts = [], console = [], calls = []\<rparr>"

section \<open>Statements, exceptions and \<^verbatim>\<open>try\<close>/\<^verbatim>\<open>catch\<close>\<close>

text \<open>
  A statement runs in a world and either completes normally or throws; what it changed
  before throwing stays changed. An awaited promise that rejects throws at the
  \<^verbatim>\<open>await\<close>.
\<close>

datatype 'a completion = Normal 'a | Throw string

type_synonym 'a prog = "world \<Rightarrow> 'a completion \<times> world"

datatype outcome = Resolved | Rejected string

definition ret :: "'a \<Rightarrow> 'a prog" where
  "ret x = (\<lambda>w. (Normal x, w))"

definition seq :: "unit prog \<Rightarrow> 'a prog \<Rightarrow> 'a prog" where
  "seq p q = (\<lambda>w. case p w of (Normal u, w') \<Rightarrow> q w' | (Throw e, w') \<Rightarrow> (Throw e, w'))"

definition try_catch :: "unit prog \<Rightarrow> (string \<Rightarrow> unit prog) \<Rightarrow> unit prog" where
  "try_catch body handler =
     (\<lambda>w. case body w of (Normal u, w') \<Rightarrow> (Normal u, w') | (Throw e, w') \<Rightarrow> handler e w')"

definition toast :: "toast_args \<Rightarrow> unit prog" where
  "toast t = (\<lambda>w. (Normal (), w\<lparr>toasts := toasts w @ [t]\<rparr>))"

definition console_log :: "string \<Rightarrow> unit prog" where
  "console_log s = (\<lambda>w. (Normal (), w\<lparr>console := console w @ [(Log, s)]\<rparr>))"

definition console_error :: "string \<Rightarrow> unit prog" where
  "console_error s = (\<lambda>w. (Normal (), w\<lparr>console := console w @ [(Error, s)]\<rparr>))"

definition setMessages :: "(Message list \<Rightarrow> Message list) \<Rightarrow> unit prog" where
  "setMessages f = (\<lambda>w. (Normal (), w\<lparr>messages := f (messages w)\<rparr>))"

definition setIsPermissionGranted :: "bool \<Rightarrow> unit prog" where
  "setIsPermissionGranted b = (\<lambda>w. (Normal (), w\<lparr>isPermissionGranted := b\<rparr>))"

text \<open>
  \<^verbatim>\<open>await navigator.mediaDevices.getUserMedia({ audio: true })\<close>: the browser decides;
  its answer is the parameter.
\<close>

definition getUserMedia :: "outcome \<Rightarrow> unit prog" where
  "getUserMedia r = (\<lambda>w.
     (case r of Resolved \<Rightarrow> Normal () | Rejected e \<Rightarrow> Throw e,
      w\<lparr>calls := calls w @ [GetUserMedia]\<rparr>))"

text \<open>
  Modelled from the spec: \<^verbatim>\<open>conversation.startSession\<close> of the missing session object.
  Section 4.2: a start moves the session to \<open>connecting\<close>; when the connect call fails the
  controller does not move on and stays unstarted.
\<close>

definition startSession :: "outcome \<Rightarrow> string \<Rightarrow> unit prog" where
  "startSession r agentId = (\<lambda>w.
     (case r of
        Resolved \<Rightarrow> (Normal (), w\<lparr>status := Connecting, calls := calls w @ [StartSession agentId]\<rparr>)
      | Rejected e \<Rightarrow> (Throw e, w\<lparr>calls := calls w @ [StartSession agentId]\<rparr>)))"

text \<open>
  Modelled from the spec: \<^verbatim>\<open>conversation.endSession\<close> of the missing session object.
  Sections 4.2 and 5: the session counts as ended whether or not the teardown succeeds.
\<close>

definition endSession :: "outcome \<Rightarrow> unit prog" where
  "endSession r = (\<lambda>w.
     (case r of Resolved \<Rightarrow> Normal () | Rejected e \<Rightarrow> Throw e,
      w\<lparr>status := Ended, calls := calls w @ [EndSession]\<rparr>))"

section \<open>The callbacks given to \<^verbatim>\<open>useConversation\<close> (lines 20 to 51)\<close>

definition onConnect :: "unit prog" where
  "onConnect =
     seq (console_log ''Connected to ElevenLabs'')
         (toast \<lparr>title = ''Verbunden'',
                 description = ''Du kannst jetzt mit dem AI-Agenten sprechen'',
                 variant = Default\<rparr>)"

definition onDisconnect :: "unit prog" where
  "onDisconnect = console_log ''Disconnected from ElevenLabs''"

text \<open>
  JavaScript's truthiness of a value that is a string or \<^verbatim>\<open>undefined\<close>, the operator
  \<^verbatim>\<open>&&\<close> (the left operand when it is falsy, else the right one) and the optional
  chaining \<^verbatim>\<open>o?.f\<close>.
\<close>

fun truthy :: "string option \<Rightarrow> bool" where
  "truthy None = False"
| "truthy (Some s) = (s \<noteq> [])"

definition js_and :: "string option \<Rightarrow> string option \<Rightarrow> string option" where
  "js_and a b = (if truthy a then b else a)"

definition opt_chain :: "'o option \<Rightarrow> ('o \<Rightarrow> string option) \<Rightarrow> string option" where
  "opt_chain obj f = (case obj of None \<Rightarrow> None | Some x \<Rightarrow> f x)"

text \<open>
  Lines 31 to 42; \<open>now\<close> is what \<^verbatim>\<open>new Date()\<close> returns during this call. Inside the
  \<^verbatim>\<open>if\<close> the three fields are there, so the other branches of the case distinctions
  are never taken.
\<close>

definition onMessage :: "time \<Rightarrow> ('a, 'b) message_event_scheme \<Rightarrow> unit prog" where
  "onMessage now m =
     seq (console_log ''Message received:'')
       (if truthy (js_and (opt_chain (message m) payload.role)
                          (opt_chain (message m) payload.content))
        then (case message m of
                None \<Rightarrow> ret ()
              | Some p \<Rightarrow>
                  (case payload.role p of
                     None \<Rightarrow> ret ()
                   | Some r \<Rightarrow>
                       (case payload.content p of
                          None \<Rightarrow> ret ()
                        | Some c \<Rightarrow>
                            setMessages (\<lambda>prev. prev @
                              [\<lparr>Message.role = r, Message.content = c, timestamp = now\<rparr>]))))
        else ret ())"

definition onError :: "string \<Rightarrow> unit prog" where
  "onError error =
     seq (console_error ''Conversation error:'')
         (toast \<lparr>title = ''Fehler'',
                 description = ''Ein Fehler ist aufgetreten. Bitte versuche es erneut.'',
                 variant = Destructive\<rparr>)"

section \<open>The three asynchronous operations (lines 61 to 104)\<close>

definition requestMicrophonePermission :: "outcome \<Rightarrow> unit prog" where
  "requestMicrophonePermission r =
     try_catch
       (seq (getUserMedia r)
         (seq (setIsPermissionGranted True)
           (toast \<lparr>title = ''Mikrofonzugriff erlaubt'',
                   description = ''Du kannst jetzt eine Konversation starten'',
                   variant = Default\<rparr>)))
       (\<lambda>error.
          seq (console_error ''Microphone permission denied:'')
            (toast \<lparr>title = ''Mikrofonzugriff verweigert'',
                    description =
                      ''Bitte erlaube den Mikrofonzugriff in deinen Browser-Einstellungen'',
                    variant = Destructive\<rparr>))"

definition startConversation :: "outcome \<Rightarrow> unit prog" where
  "startConversation r =
     try_catch
       (startSession r ''agent_1301k3zm8h2tfcbbt9qnm90ac35t'')
       (\<lambda>error.
          seq (console_error ''Failed to start conversation:'')
            (toast \<lparr>title = ''Verbindung fehlgeschlagen'',
                    description = ''Konnte nicht mit dem AI-Agenten verbinden'',
                    variant = Destructive\<rparr>))"

definition endConversation :: "outcome \<Rightarrow> unit prog" where
  "endConversation r =
     try_catch
       (seq (endSession r)
         (toast \<lparr>title = ''Konversation beendet'',
                 description = ''Die Verbindung wurde getrennt'',
                 variant = Default\<rparr>))
       (\<lambda>error. console_error ''Failed to end conversation:'')"

section \<open>The event stream and runs of the component\<close>

text \<open>
  The events the session object delivers. The first four have a callback in the
  component; a change of \<^verbatim>\<open>isSpeaking\<close> has none and only shows in the field.
\<close>

datatype 'a event =
    EvConnect
  | EvDisconnect
  | EvMessage "'a message_event"
  | EvError string
  | EvSpeakingChanged bool

text \<open>
  Modelled from the spec: what the missing session object does to its own fields when an
  event arrives (section 4.2): connect gives \<open>connected\<close>, disconnect gives \<open>ended\<close>, an
  error gives \<open>errored\<close>, a message leaves the status alone, and a speaking change
  overwrites the indicator.
\<close>

fun session_fields :: "'a event \<Rightarrow> world \<Rightarrow> world" where
  "session_fields EvConnect w = w\<lparr>status := Connected\<rparr>"
| "session_fields EvDisconnect w = w\<lparr>status := Ended\<rparr>"
| "session_fields (EvMessage m) w = w"
| "session_fields (EvError e) w = w\<lparr>status := Errored\<rparr>"
| "session_fields (EvSpeakingChanged b) w = w\<lparr>isSpeaking := b\<rparr>"

fun callback :: "time \<Rightarrow> 'a event \<Rightarrow> unit prog" where
  "callback now EvConnect = onConnect"
| "callback now EvDisconnect = onDisconnect"
| "callback now (EvMessage m) = onMessage now m"
| "callback now (EvError e) = onError e"
| "callback now (EvSpeakingChanged b) = ret ()"

definition dispatch :: "time \<Rightarrow> 'a event \<Rightarrow> unit prog" where
  "dispatch now ev = (\<lambda>w. callback now ev (session_fields ev w))"

text \<open>
  Modelled from the spec: the speaking indicator (section 3) has a value only while the
  session is connected.
\<close>

definition SpeakingIndicator :: "world \<Rightarrow> bool option" where
  "SpeakingIndicator w = (if status w = Connected then Some (isSpeaking w) else None)"

text \<open>What the controls at the bottom show (lines 174 to 225).\<close>

datatype controls = PermissionButton | Live bool | StartButton

definition controls :: "world \<Rightarrow> controls" where
  "controls w =
     (if \<not> isPermissionGranted w then PermissionButton
      else if status w = Connected then Live (isSpeaking w)
      else StartButton)"

text \<open>
  One thing that happens to the component: an event arrives at a clock reading, or one of
  the three operations is invoked and the capability behind it answers.
\<close>

datatype 'a action =
    Receive time "'a event"
  | RequestPermission outcome
  | StartConversation outcome
  | EndConversation outcome

fun perform :: "'a action \<Rightarrow> unit prog" where
  "perform (Receive now ev) = dispatch now ev"
| "perform (RequestPermission r) = requestMicrophonePermission r"
| "perform (StartConversation r) = startConversation r"
| "perform (EndConversation r) = endConversation r"

text \<open>A run performs the actions one after the other; nothing in it catches a throw.\<close>

fun run :: "'a action list \<Rightarrow> world \<Rightarrow> world" where
  "run [] w = w"
| "run (a # as) w = run as (snd (perform a w))"

text \<open>The message events alone, each with the clock reading of its receipt.\<close>

fun ingest :: "(time \<times> 'a message_event) list \<Rightarrow> world \<Rightarrow> world" where
  "ingest [] w = w"
| "ingest ((now, m) # ms) w = ingest ms (snd (onMessage now m w))"

section \<open>The notions of the specification\<close>

text \<open>
  Section 4.2 of the specification, in its words: an inbound event is well formed when it
  carries both a role and non-empty content. A role is carried when the field is there
  and holds a non-empty string.
\<close>

definition well_formed :: "('a, 'b) message_event_scheme \<Rightarrow> bool" where
  "well_formed m =
     (case message m of
        None \<Rightarrow> False
      | Some p \<Rightarrow>
          (case payload.role p of
             None \<Rightarrow> False
           | Some r \<Rightarrow> r \<noteq> [] \<and>
               (case payload.content p of None \<Rightarrow> False | Some c \<Rightarrow> c \<noteq> [])))"

text \<open>
  The Turn of the specification for an event received at \<open>now\<close>: role and content from
  the event, the time stamp from the local clock.
\<close>

definition Turn :: "time \<Rightarrow> ('a, 'b) message_event_scheme \<Rightarrow> Message" where
  "Turn now m =
     \<lparr>Message.role = (case opt_chain (message m) payload.role of None \<Rightarrow> [] | Some r \<Rightarrow> r),
      Message.content =
        (case opt_chain (message m) payload.content of None \<Rightarrow> [] | Some c \<Rightarrow> c),
      timestamp = now\<rparr>"

definition Turns :: "(time \<times> ('a, 'b) message_event_scheme) list \<Rightarrow> Message list" where
  "Turns ms = map (\<lambda>(now, m). Turn now m) (filter (\<lambda>(now, m). well_formed m) ms)"

text \<open>The message events among the actions of a run, with their clock readings.\<close>

fun incoming :: "'a action \<Rightarrow> (time \<times> 'a message_event) list" where
  "incoming (Receive now (EvMessage m)) = [(now, m)]"
| "incoming a = []"

definition received :: "'a action list \<Rightarrow> (time \<times> 'a message_event) list" where
  "received as = concat (map incoming as)"

text \<open>
  The actions after which the session status is the same whatever it was before: a
  connect, disconnect or error event, a start that succeeds and an end. After any other
  action the status is what it was.
\<close>

fun sets_status :: "'a action \<Rightarrow> bool" where
  "sets_status (Receive now EvConnect) = True"
| "sets_status (Receive now EvDisconnect) = True"
| "sets_status (Receive now (EvError e)) = True"
| "sets_status (Receive now (EvMessage m)) = False"
| "sets_status (Receive now (EvSpeakingChanged b)) = False"
| "sets_status (RequestPermission r) = False"
| "sets_status (StartConversation Resolved) = True"
| "sets_status (StartConversation (Rejected e)) = False"
| "sets_status (EndConversation r) = True"

text \<open>
  The three permission states of section 3 of the specification. The component has the
  boolean \<open>isPermissionGranted\<close> in their place.
\<close>

datatype PermissionState = Unrequested | Granted | Denied

section \<open>What each callback and operation does to the world\<close>

lemmas stmt_defs = ret_def seq_def try_catch_def toast_def console_log_def console_error_def
  setMessages_def setIsPermissionGranted_def getUserMedia_def startSession_def endSession_def

lemma onMessage_eq:
  "onMessage now m w =
     (Normal (), w\<lparr>console := console w @ [(Log, ''Message received:'')],
                   messages := messages w @ (if well_formed m then [Turn now m] else [])\<rparr>)"
  by (cases "message m")
     (auto simp: onMessage_def stmt_defs js_and_def opt_chain_def well_formed_def Turn_def
           split: option.splits)

lemma onConnect_eq:
  "onConnect w =
     (Normal (), w\<lparr>console := console w @ [(Log, ''Connected to ElevenLabs'')],
        toasts := toasts w @ [\<lparr>title = ''Verbunden'',
          description = ''Du kannst jetzt mit dem AI-Agenten sprechen'',
          variant = Default\<rparr>]\<rparr>)"
  by (simp add: onConnect_def stmt_defs)

lemma onDisconnect_eq:
  "onDisconnect w =
     (Normal (), w\<lparr>console := console w @ [(Log, ''Disconnected from ElevenLabs'')]\<rparr>)"
  by (simp add: onDisconnect_def stmt_defs)

lemma onError_eq:
  "onError e w =
     (Normal (), w\<lparr>console := console w @ [(Error, ''Conversation error:'')],
        toasts := toasts w @ [\<lparr>title = ''Fehler'',
          description = ''Ein Fehler ist aufgetreten. Bitte versuche es erneut.'',
          variant = Destructive\<rparr>]\<rparr>)"
  by (simp add: onError_def stmt_defs)

lemma requestMicrophonePermission_Resolved:
  "requestMicrophonePermission Resolved w =
     (Normal (), w\<lparr>calls := calls w @ [GetUserMedia], isPermissionGranted := True,
        toasts := toasts w @ [\<lparr>title = ''Mikrofonzugriff erlaubt'',
          description = ''Du kannst jetzt eine Konversation starten'', variant = Default\<rparr>]\<rparr>)"
  by (simp add: requestMicrophonePermission_def stmt_defs)

lemma requestMicrophonePermission_Rejected:
  "requestMicrophonePermission (Rejected e) w =
     (Normal (), w\<lparr>calls := calls w @ [GetUserMedia],
        console := console w @ [(Error, ''Microphone permission denied:'')],
        toasts := toasts w @ [\<lparr>title = ''Mikrofonzugriff verweigert'',
          description = ''Bitte erlaube den Mikrofonzugriff in deinen Browser-Einstellungen'',
          variant = Destructive\<rparr>]\<rparr>)"
  by (simp add: requestMicrophonePermission_def stmt_defs)

lemma startConversation_Resolved:
  "startConversation Resolved w =
     (Normal (), w\<lparr>status := Connecting,
        calls := calls w @ [StartSession ''agent_1301k3zm8h2tfcbbt9qnm90ac35t'']\<rparr>)"
  by (simp add: startConversation_def stmt_defs)

lemma startConversation_Rejected:
  "startConversation (Rejected e) w =
     (Normal (), w\<lparr>calls := calls w @ [StartSession ''agent_1301k3zm8h2tfcbbt9qnm90ac35t''],
        console := console w @ [(Error, ''Failed to start conversation:'')],
        toasts := toasts w @ [\<lparr>title = ''Verbindung fehlgeschlagen'',
          description = ''Konnte nicht mit dem AI-Agenten verbinden'',
          variant = Destructive\<rparr>]\<rparr>)"
  by (simp add: startConversation_def stmt_defs)

lemma endConversation_Resolved:
  "endConversation Resolved w =
     (Normal (), w\<lparr>status := Ended, calls := calls w @ [EndSession],
        toasts := toasts w @ [\<lparr>title = ''Konversation beendet'',
          description = ''Die Verbindung wurde getrennt'', variant = Default\<rparr>]\<rparr>)"
  by (simp add: endConversation_def stmt_defs)

lemma endConversation_Rejected:
  "endConversation (Rejected e) w =
     (Normal (), w\<lparr>status := Ended, calls := calls w @ [EndSession],
        console := console w @ [(Error, ''Failed to end conversation:'')]\<rparr>)"
  by (simp add: endConversation_def stmt_defs)

lemmas operation_eqs = onMessage_eq onConnect_eq onDisconnect_eq onError_eq
  requestMicrophonePermission_Resolved requestMicrophonePermission_Rejected
  startConversation_Resolved startConversation_Rejected
  endConversation_Resolved endConversation_Rejected

text \<open>An event whose role is the empty string is dropped like one without a role.\<close>

lemma empty_role_dropped:
  "messages (snd (onMessage now
     \<lparr>message = Some \<lparr>payload.role = Some [], payload.content = Some ''hi''\<rparr>\<rparr> w)) = messages w"
  by (simp add: onMessage_eq well_formed_def)

section \<open>Runs\<close>

lemma run_append: "run (as @ bs) w = run bs (run as w)"
  by (induction as arbitrary: w) simp_all

lemma Turns_append: "Turns (xs @ ys) = Turns xs @ Turns ys"
  by (simp add: Turns_def)

lemma ingest_messages: "messages (ingest ms w) = messages w @ Turns ms"
  by (induction ms arbitrary: w) (auto simp: onMessage_eq Turns_def)

lemma perform_messages: "messages (snd (perform a w)) = messages w @ Turns (incoming a)"
proof (cases a)
  case (Receive now ev)
  then show ?thesis
    by (cases ev) (simp_all add: dispatch_def operation_eqs ret_def Turns_def)
next
  case (RequestPermission r)
  then show ?thesis
    by (cases r) (simp_all add: operation_eqs Turns_def)
next
  case (StartConversation r)
  then show ?thesis
    by (cases r) (simp_all add: operation_eqs Turns_def)
next
  case (EndConversation r)
  then show ?thesis
    by (cases r) (simp_all add: operation_eqs Turns_def)
qed

lemma run_messages: "messages (run as w) = messages w @ Turns (received as)"
proof (induction as arbitrary: w)
  case Nil
  show ?case
    by (simp add: Turns_def received_def)
next
  case (Cons a as)
  have "messages (run (a # as) w) = messages (snd (perform a w)) @ Turns (received as)"
    using Cons.IH by simp
  also have "\<dots> = messages w @ Turns (incoming a @ received as)"
    by (simp add: perform_messages Turns_append)
  finally show ?case
    by (simp add: received_def)
qed

lemma perform_permission:
  "isPermissionGranted (snd (perform a w)) =
     (isPermissionGranted w \<or> a = RequestPermission Resolved)"
proof (cases a)
  case (Receive now ev)
  then show ?thesis
    by (cases ev) (simp_all add: dispatch_def operation_eqs ret_def)
next
  case (RequestPermission r)
  then show ?thesis
    by (cases r) (simp_all add: operation_eqs)
next
  case (StartConversation r)
  then show ?thesis
    by (cases r) (simp_all add: operation_eqs)
next
  case (EndConversation r)
  then show ?thesis
    by (cases r) (simp_all add: operation_eqs)
qed

lemma run_permission:
  "isPermissionGranted (run as w) =
     (isPermissionGranted w \<or> RequestPermission Resolved \<in> set as)"
  by (induction as arbitrary: w) (auto simp: perform_permission)

lemma dispatch_EvConnect:
  "dispatch now EvConnect w =
     (Normal (), w\<lparr>status := Connected,
        console := console w @ [(Log, ''Connected to ElevenLabs'')],
        toasts := toasts w @ [\<lparr>title = ''Verbunden'',
          description = ''Du kannst jetzt mit dem AI-Agenten sprechen'',
          variant = Default\<rparr>]\<rparr>)"
  by (simp add: dispatch_def onConnect_eq)

lemma dispatch_EvDisconnect:
  "dispatch now EvDisconnect w =
     (Normal (), w\<lparr>status := Ended,
        console := console w @ [(Log, ''Disconnected from ElevenLabs'')]\<rparr>)"
  by (simp add: dispatch_def onDisconnect_eq)

lemma dispatch_EvMessage:
  "dispatch now (EvMessage m) w =
     (Normal (), w\<lparr>console := console w @ [(Log, ''Message received:'')],
        messages := messages w @ (if well_formed m then [Turn now m] else [])\<rparr>)"
  by (simp add: dispatch_def onMessage_eq)

lemma dispatch_EvError:
  "dispatch now (EvError e) w =
     (Normal (), w\<lparr>status := Errored,
        console := console w @ [(Error, ''Conversation error:'')],
        toasts := toasts w @ [\<lparr>title = ''Fehler'',
          description = ''Ein Fehler ist aufgetreten. Bitte versuche es erneut.'',
          variant = Destructive\<rparr>]\<rparr>)"
  by (simp add: dispatch_def onError_eq)

lemma dispatch_EvSpeakingChanged:
  "dispatch now (EvSpeakingChanged b) w = (Normal (), w\<lparr>isSpeaking := b\<rparr>)"
  by (simp add: dispatch_def ret_def)

lemmas dispatch_eqs = dispatch_EvConnect dispatch_EvDisconnect dispatch_EvMessage
  dispatch_EvError dispatch_EvSpeakingChanged

lemmas perform_eqs = dispatch_eqs requestMicrophonePermission_Resolved
  requestMicrophonePermission_Rejected startConversation_Resolved startConversation_Rejected
  endConversation_Resolved endConversation_Rejected

lemma run_snoc: "run (as @ [a]) w = snd (perform a (run as w))"
  by (simp add: run_append)

text \<open>What an action appends to the toasts and to the console does not depend on the world.\<close>

lemma perform_toasts: "\<exists>ts. \<forall>w. toasts (snd (perform a w)) = toasts w @ ts"
proof (cases a)
  case (Receive now ev)
  then show ?thesis
    by (cases ev) (simp_all add: dispatch_eqs)
next
  case (RequestPermission r)
  then show ?thesis
    by (cases r) (simp_all add: perform_eqs)
next
  case (StartConversation r)
  then show ?thesis
    by (cases r) (simp_all add: perform_eqs)
next
  case (EndConversation r)
  then show ?thesis
    by (cases r) (simp_all add: perform_eqs)
qed

lemma run_toasts: "\<exists>ts. \<forall>w. toasts (run as w) = toasts w @ ts"
proof (induction as)
  case Nil
  show ?case by simp
next
  case (Cons a as)
  from Cons.IH obtain ts where ts: "\<And>w. toasts (run as w) = toasts w @ ts"
    by blast
  from perform_toasts [of a] obtain ta
    where ta: "\<And>w. toasts (snd (perform a w)) = toasts w @ ta"
    by blast
  have "\<forall>w. toasts (run (a # as) w) = toasts w @ (ta @ ts)"
    by (simp add: ts ta)
  then show ?case ..
qed

lemma run_toasts_shift:
  "toasts (run as v) = toasts v @ drop (length (toasts w)) (toasts (run as w))"
proof -
  from run_toasts [of as] obtain ts where ts: "\<And>w. toasts (run as w) = toasts w @ ts"
    by blast
  show ?thesis
    by (simp add: ts)
qed

lemma perform_console: "\<exists>cs. \<forall>w. console (snd (perform a w)) = console w @ cs"
proof (cases a)
  case (Receive now ev)
  then show ?thesis
    by (cases ev) (simp_all add: dispatch_eqs)
next
  case (RequestPermission r)
  then show ?thesis
    by (cases r) (simp_all add: perform_eqs)
next
  case (StartConversation r)
  then show ?thesis
    by (cases r) (simp_all add: perform_eqs)
next
  case (EndConversation r)
  then show ?thesis
    by (cases r) (simp_all add: perform_eqs)
qed

lemma run_console: "\<exists>cs. \<forall>w. console (run as w) = console w @ cs"
proof (induction as)
  case Nil
  show ?case by simp
next
  case (Cons a as)
  from Cons.IH obtain cs where cs: "\<And>w. console (run as w) = console w @ cs"
    by blast
  from perform_console [of a] obtain ca
    where ca: "\<And>w. console (snd (perform a w)) = console w @ ca"
    by blast
  have "\<forall>w. console (run (a # as) w) = console w @ (ca @ cs)"
    by (simp add: cs ca)
  then show ?case ..
qed

lemma run_console_shift:
  "console (run as v) = console v @ drop (length (console w)) (console (run as w))"
proof -
  from run_console [of as] obtain cs where cs: "\<And>w. console (run as w) = console w @ cs"
    by blast
  show ?thesis
    by (simp add: cs)
qed

text \<open>The speaking flag and the calls after a run depend on their own value before only.\<close>

lemma perform_isSpeaking:
  assumes "isSpeaking v = isSpeaking w"
  shows "isSpeaking (snd (perform a v)) = isSpeaking (snd (perform a w))"
proof (cases a)
  case (Receive now ev)
  with assms show ?thesis
    by (cases ev) (simp_all add: dispatch_eqs)
next
  case (RequestPermission r)
  with assms show ?thesis
    by (cases r) (simp_all add: perform_eqs)
next
  case (StartConversation r)
  with assms show ?thesis
    by (cases r) (simp_all add: perform_eqs)
next
  case (EndConversation r)
  with assms show ?thesis
    by (cases r) (simp_all add: perform_eqs)
qed

lemma run_isSpeaking:
  assumes "isSpeaking v = isSpeaking w"
  shows "isSpeaking (run as v) = isSpeaking (run as w)"
  using assms
proof (induction as arbitrary: v w)
  case Nil
  then show ?case by simp
next
  case (Cons a as)
  from Cons.prems have "isSpeaking (snd (perform a v)) = isSpeaking (snd (perform a w))"
    by (rule perform_isSpeaking)
  then have "isSpeaking (run as (snd (perform a v))) = isSpeaking (run as (snd (perform a w)))"
    by (rule Cons.IH)
  then show ?case by simp
qed

lemma perform_calls:
  assumes "calls v = calls w"
  shows "calls (snd (perform a v)) = calls (snd (perform a w))"
proof (cases a)
  case (Receive now ev)
  with assms show ?thesis
    by (cases ev) (simp_all add: dispatch_eqs)
next
  case (RequestPermission r)
  with assms show ?thesis
    by (cases r) (simp_all add: perform_eqs)
next
  case (StartConversation r)
  with assms show ?thesis
    by (cases r) (simp_all add: perform_eqs)
next
  case (EndConversation r)
  with assms show ?thesis
    by (cases r) (simp_all add: perform_eqs)
qed

lemma run_calls:
  assumes "calls v = calls w"
  shows "calls (run as v) = calls (run as w)"
  using assms
proof (induction as arbitrary: v w)
  case Nil
  then show ?case by simp
next
  case (Cons a as)
  from Cons.prems have "calls (snd (perform a v)) = calls (snd (perform a w))"
    by (rule perform_calls)
  then have "calls (run as (snd (perform a v))) = calls (run as (snd (perform a w)))"
    by (rule Cons.IH)
  then show ?case by simp
qed

text \<open>The status after an action: set by the action, or left as it was.\<close>

lemma perform_status:
  "status (snd (perform a v)) =
     (if sets_status a then status (snd (perform a w)) else status v)"
proof (cases a)
  case (Receive now ev)
  then show ?thesis
    by (cases ev) (simp_all add: dispatch_eqs)
next
  case (RequestPermission r)
  then show ?thesis
    by (cases r) (simp_all add: perform_eqs)
next
  case (StartConversation r)
  then show ?thesis
    by (cases r) (simp_all add: perform_eqs)
next
  case (EndConversation r)
  then show ?thesis
    by (cases r) (simp_all add: perform_eqs)
qed

lemma run_status:
  "status (run as v) = (if list_ex sets_status as then status (run as w) else status v)"
proof (induction as arbitrary: v w)
  case Nil
  show ?case by simp
next
  case (Cons a as)
  let ?v = "snd (perform a v)" and ?w = "snd (perform a w)"
  show ?case
  proof (cases "list_ex sets_status as")
    case True
    have "status (run as ?v) = (if list_ex sets_status as then status (run as ?w) else status ?v)"
      by (rule Cons.IH)
    with True show ?thesis
      by simp
  next
    case False
    have keep: "status (run as u) = status u" for u
    proof -
      have "status (run as u) = (if list_ex sets_status as then status (run as u) else status u)"
        by (rule Cons.IH)
      also have "\<dots> = status u"
        using False by simp
      finally show ?thesis .
    qed
    have "status ?v = (if sets_status a then status ?w else status v)"
      by (rule perform_status)
    with False show ?thesis
      by (simp add: keep)
  qed
qed

text \<open>
  The scenario of section 8: start, connect, two messages, disconnect, end. The
  transcript holds the two turns in order and the session has ended.
\<close>

lemma scenario_hello:
  "messages (run
     [StartConversation Resolved,
      Receive 10 EvConnect,
      Receive 20 (EvMessage
        \<lparr>message = Some \<lparr>payload.role = Some ''user'', payload.content = Some ''Hello''\<rparr>\<rparr>),
      Receive 30 (EvMessage
        \<lparr>message = Some \<lparr>payload.role = Some ''assistant'',
                          payload.content = Some ''Hi there''\<rparr>\<rparr>),
      Receive 40 EvDisconnect,
      EndConversation Resolved] initial) =
     [\<lparr>Message.role = ''user'', Message.content = ''Hello'', timestamp = 20\<rparr>,
      \<lparr>Message.role = ''assistant'', Message.content = ''Hi there'', timestamp = 30\<rparr>]
   \<and> status (run
     [StartConversation Resolved,
      Receive 10 EvConnect,
      Receive 20 (EvMessage
        \<lparr>message = Some \<lparr>payload.role = Some ''user'', payload.content = Some ''Hello''\<rparr>\<rparr>),
      Receive 30 (EvMessage
        \<lparr>message = Some \<lparr>payload.role = Some ''assistant'',
                          payload.content = Some ''Hi there''\<rparr>\<rparr>),
      Receive 40 EvDisconnect,
      EndConversation Resolved] initial) = Ended"
  by (simp add: dispatch_def operation_eqs well_formed_def Turn_def opt_chain_def initial_def)

section \<open>The claims\<close>

text \<open>
  Claim C1. Whatever sequence of message events the handler \<open>onMessage\<close> processes, the
  transcript afterwards is the transcript before followed by the Turns of exactly those
  events that carry both a role and non-empty content, in the order of receipt; starting
  from the empty transcript it is exactly these Turns. An event with a role and the empty
  string as content is dropped: the transcript stays as it was, of length 0 at the start.
\<close>

theorem transcript_is_well_formed_subsequence:
  "messages (ingest ms w) =
     messages w @ map (\<lambda>(now, m). Turn now m) (filter (\<lambda>(now, m). well_formed m) ms)
   \<and> messages (ingest ms initial) =
       map (\<lambda>(now, m). Turn now m) (filter (\<lambda>(now, m). well_formed m) ms)
   \<and> messages (snd (onMessage now
        \<lparr>message = Some \<lparr>payload.role = Some ''user'', payload.content = Some []\<rparr>\<rparr> w)) =
       messages w
   \<and> length (messages (snd (onMessage now
        \<lparr>message = Some \<lparr>payload.role = Some ''user'', payload.content = Some []\<rparr>\<rparr>
        initial))) = 0"
proof -
  have "messages (ingest ms v) =
          messages v @ map (\<lambda>(now, m). Turn now m) (filter (\<lambda>(now, m). well_formed m) ms)"
    for v
    using ingest_messages [of ms v] by (simp add: Turns_def)
  moreover have "messages initial = []"
    by (simp add: initial_def)
  moreover have
    "\<not> well_formed \<lparr>message = Some \<lparr>payload.role = Some ''user'', payload.content = Some []\<rparr>\<rparr>"
    by (simp add: well_formed_def)
  ultimately show ?thesis
    by (simp add: onMessage_eq)
qed

text \<open>
  Claim C2, as amended. \<open>requestMicrophonePermission\<close> never throws. When the capture
  capability succeeds the flag \<open>isPermissionGranted\<close> is set and exactly one toast, the
  granted one, is emitted. When it fails the flag is left as it was and exactly one
  toast, the refusal, is emitted. No run of the component ever clears a flag that is set.
\<close>

theorem permission_request_outcomes:
  "fst (requestMicrophonePermission r w) = Normal ()
   \<and> isPermissionGranted (snd (requestMicrophonePermission Resolved w)) = True
   \<and> toasts (snd (requestMicrophonePermission Resolved w)) =
       toasts w @ [\<lparr>title = ''Mikrofonzugriff erlaubt'',
                     description = ''Du kannst jetzt eine Konversation starten'',
                     variant = Default\<rparr>]
   \<and> isPermissionGranted (snd (requestMicrophonePermission (Rejected e) w)) =
       isPermissionGranted w
   \<and> toasts (snd (requestMicrophonePermission (Rejected e) w)) =
       toasts w @ [\<lparr>title = ''Mikrofonzugriff verweigert'',
                     description =
                       ''Bitte erlaube den Mikrofonzugriff in deinen Browser-Einstellungen'',
                     variant = Destructive\<rparr>]
   \<and> isPermissionGranted (run as (w\<lparr>isPermissionGranted := True\<rparr>)) = True"
  by (cases r) (simp_all add: requestMicrophonePermission_Resolved
      requestMicrophonePermission_Rejected run_permission)

text \<open>
  Claim C2 as it was stated fails: it wants a failed request to leave the permission
  state at \<open>denied\<close>, a state other than the \<open>unrequested\<close> of the start. The component
  stores one boolean, and after a failed first request it holds what it held at the
  start, so no reading of the stored flag tells the two states apart.
\<close>

theorem failed_request_is_not_told_from_unrequested:
  "\<not> (\<exists>\<alpha> :: bool \<Rightarrow> PermissionState.
         \<alpha> (isPermissionGranted initial) = Unrequested
       \<and> \<alpha> (isPermissionGranted
              (snd (requestMicrophonePermission (Rejected ''NotAllowedError'') initial))) =
           Denied)"
  by (simp add: requestMicrophonePermission_Rejected)

text \<open>
  Claim C3. When the connect call behind \<open>startConversation\<close> fails, the operation
  returns without throwing, the session status is what it was before (so the session
  neither becomes connecting nor connected) and the controls show what they showed,
  the transcript and the permission flag are unchanged, exactly one toast is emitted,
  the "Verbindung fehlgeschlagen" one, and the session capability was called once and
  not again.
\<close>

theorem failed_start_leaves_session_unstarted:
  "fst (startConversation (Rejected e) w) = Normal ()
   \<and> status (snd (startConversation (Rejected e) w)) = status w
   \<and> controls (snd (startConversation (Rejected e) w)) = controls w
   \<and> messages (snd (startConversation (Rejected e) w)) = messages w
   \<and> isPermissionGranted (snd (startConversation (Rejected e) w)) = isPermissionGranted w
   \<and> toasts (snd (startConversation (Rejected e) w)) =
       toasts w @ [\<lparr>title = ''Verbindung fehlgeschlagen'',
                     description = ''Konnte nicht mit dem AI-Agenten verbinden'',
                     variant = Destructive\<rparr>]
   \<and> calls (snd (startConversation (Rejected e) w)) =
       calls w @ [StartSession ''agent_1301k3zm8h2tfcbbt9qnm90ac35t'']"
  by (simp add: startConversation_Rejected controls_def)

text \<open>
  Claim C4. \<open>endConversation\<close> never throws. After a successful teardown exactly one
  toast, "Konversation beendet", is emitted. After a failed teardown no toast is emitted
  and one error line is written to the console. In both cases the session status is
  \<open>ended\<close>, and the transcript and the permission flag are unchanged, also when the
  session had ended already.
\<close>

theorem end_is_best_effort:
  "fst (endConversation r w) = Normal ()
   \<and> toasts (snd (endConversation Resolved w)) =
       toasts w @ [\<lparr>title = ''Konversation beendet'',
                     description = ''Die Verbindung wurde getrennt'', variant = Default\<rparr>]
   \<and> toasts (snd (endConversation (Rejected e) w)) = toasts w
   \<and> console (snd (endConversation (Rejected e) w)) =
       console w @ [(Error, ''Failed to end conversation:'')]
   \<and> status (snd (endConversation r w)) = Ended
   \<and> isPermissionGranted (snd (endConversation r w)) = isPermissionGranted w
   \<and> messages (snd (endConversation r w)) = messages w
   \<and> messages (snd (endConversation r (w\<lparr>status := Ended\<rparr>))) = messages w
   \<and> fst (endConversation r (w\<lparr>status := Ended\<rparr>)) = Normal ()"
  by (cases r) (simp_all add: endConversation_Resolved endConversation_Rejected)

text \<open>
  Claim C5. An error event only writes a console line and emits one toast, the failure
  one: transcript, permission flag, speaking flag and the calls made so far are
  untouched, no teardown is requested and the status is \<open>errored\<close>, not \<open>ended\<close>. An
  error followed by a connect leaves the session connected with a speaking indicator
  that has a value. For every sequence of actions before and after an error event, what
  comes next is processed as always: a connect gives \<open>connected\<close>, a defined speaking
  indicator and the connected toast; a disconnect gives \<open>ended\<close> and its console line; a
  speaking change sets the flag and leaves the status; a message event is appended when
  it is well formed; a start that succeeds gives \<open>connecting\<close> and an end gives \<open>ended\<close>.
  Compared with the same run without the error event in front, the transcript, the
  permission flag, the speaking flag and the calls are the same, the status is the same
  as soon as one later action sets it (and \<open>errored\<close> until then), and the toasts and
  console lines are those of the run without the error, after the error's own.
\<close>

theorem error_is_not_terminal:
  fixes as bs :: "'a action list"
  shows
  "fst (dispatch now (EvError e :: 'a event) w) = Normal ()
   \<and> toasts (snd (dispatch now (EvError e :: 'a event) w)) =
       toasts w @ [\<lparr>title = ''Fehler'',
                     description = ''Ein Fehler ist aufgetreten. Bitte versuche es erneut.'',
                     variant = Destructive\<rparr>]
   \<and> console (snd (dispatch now (EvError e :: 'a event) w)) =
       console w @ [(Error, ''Conversation error:'')]
   \<and> messages (snd (dispatch now (EvError e :: 'a event) w)) = messages w
   \<and> isPermissionGranted (snd (dispatch now (EvError e :: 'a event) w)) = isPermissionGranted w
   \<and> isSpeaking (snd (dispatch now (EvError e :: 'a event) w)) = isSpeaking w
   \<and> calls (snd (dispatch now (EvError e :: 'a event) w)) = calls w
   \<and> status (snd (dispatch now (EvError e :: 'a event) w)) = Errored
   \<and> status (run [Receive now (EvError e), Receive now' EvConnect] w) = Connected
   \<and> SpeakingIndicator (run [Receive now (EvError e), Receive now' EvConnect] w) =
       Some (isSpeaking w)
   \<and> status (run (as @ [Receive now' EvConnect]) w) = Connected
   \<and> SpeakingIndicator (run (as @ [Receive now' EvConnect]) w) \<noteq> None
   \<and> messages (run (Receive now (EvError e) # as) w) = messages (run as w)
   \<and> isPermissionGranted (run (Receive now (EvError e) # as) w) =
       isPermissionGranted (run as w)
   \<and> status (run (as @ Receive now (EvError e) # bs @ [Receive now' EvConnect]) w) = Connected
   \<and> SpeakingIndicator (run (as @ Receive now (EvError e) # bs @ [Receive now' EvConnect]) w) =
       Some (isSpeaking (run (as @ Receive now (EvError e) # bs) w))
   \<and> toasts (run (as @ Receive now (EvError e) # bs @ [Receive now' EvConnect]) w) =
       toasts (run (as @ Receive now (EvError e) # bs) w) @
         [\<lparr>title = ''Verbunden'',
           description = ''Du kannst jetzt mit dem AI-Agenten sprechen'',
           variant = Default\<rparr>]
   \<and> status (run (as @ Receive now (EvError e) # bs @ [Receive now' EvDisconnect]) w) = Ended
   \<and> console (run (as @ Receive now (EvError e) # bs @ [Receive now' EvDisconnect]) w) =
       console (run (as @ Receive now (EvError e) # bs) w) @
         [(Log, ''Disconnected from ElevenLabs'')]
   \<and> isSpeaking (run (as @ Receive now (EvError e) # bs @
                        [Receive now' (EvSpeakingChanged b)]) w) = b
   \<and> status (run (as @ Receive now (EvError e) # bs @
                     [Receive now' (EvSpeakingChanged b)]) w) =
       status (run (as @ Receive now (EvError e) # bs) w)
   \<and> messages (run (as @ Receive now (EvError e) # bs @ [Receive now' (EvMessage m)]) w) =
       messages (run (as @ Receive now (EvError e) # bs) w) @
         (if well_formed m then [Turn now' m] else [])
   \<and> status (run (as @ Receive now (EvError e) # bs @ [StartConversation Resolved]) w) =
       Connecting
   \<and> status (run (as @ Receive now (EvError e) # bs @ [EndConversation r]) w) = Ended
   \<and> status (run (Receive now (EvError e) # as) w) =
       (if list_ex sets_status as then status (run as w) else Errored)
   \<and> isSpeaking (run (Receive now (EvError e) # as) w) = isSpeaking (run as w)
   \<and> calls (run (Receive now (EvError e) # as) w) = calls (run as w)
   \<and> toasts (run (Receive now (EvError e) # as) w) =
       toasts w @ [\<lparr>title = ''Fehler'',
                     description = ''Ein Fehler ist aufgetreten. Bitte versuche es erneut.'',
                     variant = Destructive\<rparr>]
         @ drop (length (toasts w)) (toasts (run as w))
   \<and> console (run (Receive now (EvError e) # as) w) =
       console w @ [(Error, ''Conversation error:'')]
         @ drop (length (console w)) (console (run as w))"
proof -
  let ?pre = "as @ Receive now (EvError e) # bs"
  let ?err = "snd (dispatch now (EvError e :: 'a event) w)"
  have snoc: "run (as @ Receive now (EvError e) # bs @ [a]) w = snd (perform a (run ?pre w))"
    for a
    using run_snoc [of ?pre a w] by simp
  have one: "fst (dispatch now (EvError e :: 'a event) w) = Normal ()
     \<and> toasts ?err = toasts w @ [\<lparr>title = ''Fehler'',
          description = ''Ein Fehler ist aufgetreten. Bitte versuche es erneut.'',
          variant = Destructive\<rparr>]
     \<and> console ?err = console w @ [(Error, ''Conversation error:'')]
     \<and> messages ?err = messages w
     \<and> isPermissionGranted ?err = isPermissionGranted w
     \<and> isSpeaking ?err = isSpeaking w
     \<and> calls ?err = calls w
     \<and> status ?err = Errored"
    by (simp add: dispatch_EvError)
  have two: "status (run [Receive now (EvError e), Receive now' EvConnect] w) = Connected
     \<and> SpeakingIndicator (run [Receive now (EvError e), Receive now' EvConnect] w) =
         Some (isSpeaking w)
     \<and> status (run (as @ [Receive now' EvConnect]) w) = Connected
     \<and> SpeakingIndicator (run (as @ [Receive now' EvConnect]) w) \<noteq> None"
    by (simp add: run_snoc dispatch_eqs SpeakingIndicator_def)
  have three: "messages (run (Receive now (EvError e) # as) w) = messages (run as w)
     \<and> isPermissionGranted (run (Receive now (EvError e) # as) w) =
         isPermissionGranted (run as w)"
    by (simp add: run_messages run_permission received_def del: run.simps)
  have four: "status (snd (perform (Receive now' EvConnect) (run ?pre w))) = Connected
     \<and> SpeakingIndicator (snd (perform (Receive now' EvConnect) (run ?pre w))) =
         Some (isSpeaking (run ?pre w))
     \<and> toasts (snd (perform (Receive now' EvConnect) (run ?pre w))) =
         toasts (run ?pre w) @
           [\<lparr>title = ''Verbunden'',
             description = ''Du kannst jetzt mit dem AI-Agenten sprechen'',
             variant = Default\<rparr>]
     \<and> status (snd (perform (Receive now' EvDisconnect) (run ?pre w))) = Ended
     \<and> console (snd (perform (Receive now' EvDisconnect) (run ?pre w))) =
         console (run ?pre w) @ [(Log, ''Disconnected from ElevenLabs'')]
     \<and> isSpeaking (snd (perform (Receive now' (EvSpeakingChanged b)) (run ?pre w))) = b
     \<and> status (snd (perform (Receive now' (EvSpeakingChanged b)) (run ?pre w))) =
         status (run ?pre w)
     \<and> messages (snd (perform (Receive now' (EvMessage m)) (run ?pre w))) =
         messages (run ?pre w) @ (if well_formed m then [Turn now' m] else [])
     \<and> status (snd (perform (StartConversation Resolved) (run ?pre w))) = Connecting"
    by (simp add: dispatch_eqs startConversation_Resolved SpeakingIndicator_def)
  have ended: "status (snd (perform (EndConversation r) (run ?pre w))) = Ended"
    by (cases r) (simp_all add: endConversation_Resolved endConversation_Rejected)
  have run_err: "run (Receive now (EvError e) # as) w = run as ?err"
    by simp
  have five: "status (run as ?err) =
       (if list_ex sets_status as then status (run as w) else Errored)"
    using run_status [of as ?err w] one by simp
  have six: "isSpeaking (run as ?err) = isSpeaking (run as w)"
    using one by (intro run_isSpeaking) simp
  have seven: "calls (run as ?err) = calls (run as w)"
    using one by (intro run_calls) simp
  have eight: "toasts (run as ?err) =
       toasts w @ [\<lparr>title = ''Fehler'',
          description = ''Ein Fehler ist aufgetreten. Bitte versuche es erneut.'',
          variant = Destructive\<rparr>] @ drop (length (toasts w)) (toasts (run as w))"
    using run_toasts_shift [of as ?err w] one by simp
  have nine: "console (run as ?err) =
       console w @ [(Error, ''Conversation error:'')]
         @ drop (length (console w)) (console (run as w))"
    using run_console_shift [of as ?err w] one by simp
  show ?thesis
    unfolding snoc run_err
    using one two three [unfolded run_err] four ended five six seven eight nine
    by blast
qed

text \<open>
  Claim C6. Whether a message event is appended depends on its role and content only:
  in every session status, also before any connect event has been processed, a
  well-formed event adds its Turn to the transcript and any other event adds nothing.
\<close>

theorem message_ingestion_ignores_status:
  "messages (snd (onMessage now m (w\<lparr>status := s\<rparr>))) =
     messages w @ (if well_formed m then [Turn now m] else [])
   \<and> messages (snd (dispatch now (EvMessage m') (w\<lparr>status := s\<rparr>))) =
       messages w @ (if well_formed m' then [Turn now m'] else [])
   \<and> messages (snd (dispatch now (EvMessage m') initial)) =
       (if well_formed m' then [Turn now m'] else [])
   \<and> status initial = Idle"
  by (simp add: dispatch_def onMessage_eq initial_def)

text \<open>
  Claim C7. Over any run of events and operations the transcript only grows at its end:
  the transcript before is a prefix of the transcript after, and what was added are the
  Turns of the well-formed message events of the run, in order. Ending a session and
  starting one again leaves the transcript as it was.
\<close>

theorem transcript_is_append_only:
  "prefix (messages w) (messages (run as w))
   \<and> messages (run as w) =
       messages w @ map (\<lambda>(now, m). Turn now m)
                      (filter (\<lambda>(now, m). well_formed m) (received as))
   \<and> messages (run [EndConversation r, StartConversation r'] w) = messages w"
  by (simp add: run_messages Turns_def received_def del: run.simps)

text \<open>
  Claim C8, as amended. The time stamps of the Turns that a sequence of message events
  adds are the readings of the local clock at the receipt of the well-formed events, in
  order of receipt, whatever the events carry; so they are non-decreasing in insertion
  order whenever the clock readings at the successive receipts are.
\<close>

theorem timestamps_are_local_clock_readings:
  "map timestamp (messages (ingest ms w)) =
     map timestamp (messages w) @ map fst (filter (\<lambda>(now, m). well_formed m) ms)
   \<and> (sorted (map fst ms) \<longrightarrow> sorted (map timestamp (messages (ingest ms initial))))"
proof -
  have ts: "map timestamp (Turns ms) = map fst (filter (\<lambda>(now, m). well_formed m) ms)"
    by (induction ms) (auto simp: Turns_def Turn_def)
  have "sorted (map fst (filter (\<lambda>(now, m). well_formed m) ms))" if "sorted (map fst ms)"
    using that by (rule sorted_filter)
  then show ?thesis
    by (simp add: ingest_messages ts initial_def)
qed

theorem timestamps_are_local_clock_readings_witness:
  "sorted (map fst [(3 :: time, \<lparr>message = Some \<lparr>payload.role = Some ''user'', payload.content = Some ''Hello''\<rparr>\<rparr>), (5, \<lparr>message = Some \<lparr>payload.role = Some ''assistant'', payload.content = Some ''Hi there''\<rparr>\<rparr>)])
   \<and> sorted (map timestamp (messages (ingest [(3, \<lparr>message = Some \<lparr>payload.role = Some ''user'', payload.content = Some ''Hello''\<rparr>\<rparr>), (5, \<lparr>message = Some \<lparr>payload.role = Some ''assistant'', payload.content = Some ''Hi there''\<rparr>\<rparr>)] initial)))"
proof -
  let ?ms = "[(3 :: time, \<lparr>message = Some \<lparr>payload.role = Some ''user'', payload.content = Some ''Hello''\<rparr>\<rparr>), (5, \<lparr>message = Some \<lparr>payload.role = Some ''assistant'', payload.content = Some ''Hi there''\<rparr>\<rparr>)]"
  have h: "sorted (map fst ?ms)"
    by simp
  have "sorted (map timestamp (messages (ingest ?ms initial)))"
    using timestamps_are_local_clock_readings [of ?ms initial] h by blast
  with h show ?thesis
    by blast
qed

text \<open>
  Claim C8 as it was stated fails: \<^verbatim>\<open>new Date()\<close> reads the wall clock, and when that
  clock is set back between two receipts (5 at the first, 3 at the second) the time
  stamps decrease along the transcript.
\<close>

theorem timestamps_follow_a_clock_set_back:
  "\<not> sorted (map timestamp (messages (ingest [(5, \<lparr>message = Some \<lparr>payload.role = Some ''user'', payload.content = Some ''Hello''\<rparr>\<rparr>), (3, \<lparr>message = Some \<lparr>payload.role = Some ''assistant'', payload.content = Some ''Hi there''\<rparr>\<rparr>)] initial)))"
  by (simp add: ingest_messages Turns_def well_formed_def Turn_def opt_chain_def initial_def
      del: ingest.simps)

text \<open>
  Claim C9. The handler does not check the role against user and assistant: an event
  with the role "system" and non-empty content adds a Turn with that very role.
\<close>

theorem role_is_not_validated:
  "''system'' \<noteq> ''user'' \<and> ''system'' \<noteq> ''assistant''
   \<and> messages (snd (onMessage now
        \<lparr>message = Some \<lparr>payload.role = Some ''system'', payload.content = Some ''hi''\<rparr>\<rparr> w)) =
       messages w @ [\<lparr>Message.role = ''system'', Message.content = ''hi'', timestamp = now\<rparr>]"
  by (simp add: onMessage_def stmt_defs js_and_def opt_chain_def)

text \<open>
  Claim C10. A failed permission request changes neither the permission flag nor
  anything else the component stores or reads, and the controls show what they showed.
  From the start the flag is as at the start and the permission button is offered again.
\<close>

theorem failed_request_leaves_permission_unchanged:
  "isPermissionGranted (snd (requestMicrophonePermission (Rejected e) w)) = isPermissionGranted w
   \<and> messages (snd (requestMicrophonePermission (Rejected e) w)) = messages w
   \<and> status (snd (requestMicrophonePermission (Rejected e) w)) = status w
   \<and> isSpeaking (snd (requestMicrophonePermission (Rejected e) w)) = isSpeaking w
   \<and> controls (snd (requestMicrophonePermission (Rejected e) w)) = controls w
   \<and> isPermissionGranted (snd (requestMicrophonePermission (Rejected e) initial)) =
       isPermissionGranted initial
   \<and> controls (snd (requestMicrophonePermission (Rejected e) initial)) = PermissionButton
   \<and> controls initial = PermissionButton"
  by (simp add: requestMicrophonePermission_Rejected controls_def initial_def)

end
